theory Spec2Isabelle
  imports Main
begin

section \<open>Exceptions\<close>

text \<open>
  A raised Python exception is a value. The runtime type is kept as a tag, because
  \<^verbatim>\<open>on_failure\<close> looks its handler up under \<^verbatim>\<open>type(e)\<close>; the two messages are
  the attributes that \<^verbatim>\<open>execute\<close> reads from a \<^verbatim>\<open>NotteBaseError\<close>, and
  \<open>exn_str\<close> is what \<^verbatim>\<open>str(e)\<close> gives. \<open>PyExceptionT name\<close> is any other class
  that derives from \<^verbatim>\<open>Exception\<close>, and \<open>BaseExceptionT name\<close> a class that derives
  from \<^verbatim>\<open>BaseException\<close> only, such as \<^verbatim>\<open>asyncio.CancelledError\<close> and
  \<^verbatim>\<open>KeyboardInterrupt\<close>, which a clause \<^verbatim>\<open>except Exception\<close> does not catch.
\<close>

datatype exn_type =
    RateLimitErrorT
  | InvalidActionIDErrorT
  | StepExecutionFailureT
  | MaxConsecutiveFailuresErrorT
  | NotteErrorT string
  | ValidationErrorT
  | PyExceptionT string
  | BaseExceptionT string

record exn =
  etype :: exn_type
  dev_message :: string
  agent_message :: string
  exn_str :: string

text \<open>
  \<^verbatim>\<open>isinstance(e, NotteBaseError)\<close>: the two error classes of safe\_executor.py derive
  from it, \<^verbatim>\<open>InvalidActionIDError\<close> comes from the module of the action errors, which
  all do, and \<open>NotteErrorT name\<close> stands for any other subclass.
\<close>

fun is_NotteBaseError :: "exn_type \<Rightarrow> bool" where
  "is_NotteBaseError InvalidActionIDErrorT = True"
| "is_NotteBaseError StepExecutionFailureT = True"
| "is_NotteBaseError MaxConsecutiveFailuresErrorT = True"
| "is_NotteBaseError (NotteErrorT n) = True"
| "is_NotteBaseError RateLimitErrorT = False"
| "is_NotteBaseError ValidationErrorT = False"
| "is_NotteBaseError (PyExceptionT n) = False"
| "is_NotteBaseError (BaseExceptionT n) = False"

text \<open>\<^verbatim>\<open>isinstance(e, Exception)\<close>.\<close>

fun is_Exception :: "exn_type \<Rightarrow> bool" where
  "is_Exception (BaseExceptionT n) = False"
| "is_Exception t = True"

subsection \<open>Decimal rendering of integers in f-strings\<close>

fun str_nat :: "nat \<Rightarrow> string" where
  "str_nat n =
     (if n < 10 then [''0123456789'' ! n]
      else str_nat (n div 10) @ [''0123456789'' ! (n mod 10)])"

declare str_nat.simps [simp del]

definition str_int :: "int \<Rightarrow> string" where
  "str_int i = (if i < 0 then CHR ''-'' # str_nat (nat (- i)) else str_nat (nat i))"

text \<open>
  The two error classes of safe\_executor.py; each passes one message as user, agent and
  developer message. \<^verbatim>\<open>NotteBaseError\<close> is declared outside the sources at hand, so
  \<^verbatim>\<open>str\<close> of these errors is taken to be that message.
\<close>

definition StepExecutionFailure :: "string \<Rightarrow> exn" where
  "StepExecutionFailure m =
     \<lparr>etype = StepExecutionFailureT, dev_message = m, agent_message = m, exn_str = m\<rparr>"

definition MaxConsecutiveFailuresError :: "int \<Rightarrow> exn" where
  "MaxConsecutiveFailuresError max_failures =
     (let m = ''Max consecutive failures reached in a single step: '' @ str_int max_failures @ ''.''
      in \<lparr>etype = MaxConsecutiveFailuresErrorT, dev_message = m, agent_message = m, exn_str = m\<rparr>)"

section \<open>The safe executor (safe\_executor.py)\<close>

record ('s, 't) ExecutionStatus =
  input :: 's
  output' :: "'t option"
  success :: bool
  message :: string
  should_rerun_step_agent :: bool

text \<open>
  \<^verbatim>\<open>ExecutionStatus.get\<close> raises \<^verbatim>\<open>ValueError\<close> unless the status succeeded with an
  output.
\<close>

definition get :: "('s, 't) ExecutionStatus \<Rightarrow> exn + 't" where
  "get st =
     (case output' st of
        None \<Rightarrow> Inl \<lparr>etype = PyExceptionT ''ValueError'', dev_message = [], agent_message = [],
                    exn_str = ''Execution failed with message: '' @ message st\<rparr>
      | Some v \<Rightarrow>
          if \<not> success st
          then Inl \<lparr>etype = PyExceptionT ''ValueError'', dev_message = [], agent_message = [],
                    exn_str = ''Execution failed with message: '' @ message st\<rparr>
          else Inr v)"

text \<open>
  The executor object. \<open>'w\<close> is everything outside the executor that its callables read
  or change (for the agent: trajectory, conversation and browser). The wrapped operation
  returns its result or the exception it raised, with the state it left; its result
  type is an unconstrained type variable, so the result may be \<^verbatim>\<open>None\<close>, and it is
  an optional value. The precheck is synchronous and only raises or returns. A failure
  handler is called for its side effect and may raise. \<open>show_input\<close> is Python's
  \<^verbatim>\<open>str\<close> on the input, used in the success message.
\<close>

record ('s, 't, 'w) SafeActionExecutor =
  func :: "'s \<Rightarrow> 'w \<Rightarrow> (exn + 't option) \<times> 'w"
  precheck_func :: "('s \<Rightarrow> 'w \<Rightarrow> exn option) option"
  on_failure_handlers :: "exn_type \<rightharpoonup> (exn \<Rightarrow> 'w \<Rightarrow> (exn + unit) \<times> 'w)"
  max_consecutive_failures :: int
  consecutive_failures :: int
  raise_on_failure :: bool
  show_input :: "'s \<Rightarrow> string"

definition reset :: "('s, 't, 'w) SafeActionExecutor \<Rightarrow> ('s, 't, 'w) SafeActionExecutor" where
  "reset ex = ex\<lparr>consecutive_failures := 0\<rparr>"

text \<open>
  The handler lookup and call of \<^verbatim>\<open>on_failure\<close>: the handler registered under the
  exact type of the error, if there is one, is called with the error.
\<close>

definition call_handler ::
  "('s, 't, 'w) SafeActionExecutor \<Rightarrow> exn \<Rightarrow> 'w \<Rightarrow> (exn + unit) \<times> 'w" where
  "call_handler ex e w =
     (case on_failure_handlers ex (etype e) of
        None \<Rightarrow> (Inr (), w)
      | Some handler \<Rightarrow> handler e w)"

text \<open>
  \<^verbatim>\<open>on_failure\<close>: count the failure and call the handler; the call is not guarded, so
  an exception of the handler leaves \<^verbatim>\<open>on_failure\<close>, and with it \<^verbatim>\<open>execute\<close>, at
  once. Then raise the fatal error at the ceiling, raise the step failure when
  \<^verbatim>\<open>raise_on_failure\<close> is set, and otherwise return the failed status.
\<close>

definition on_failure ::
  "('s, 't, 'w) SafeActionExecutor \<Rightarrow> 's \<Rightarrow> string \<Rightarrow> exn \<Rightarrow> 'w
     \<Rightarrow> (exn + ('s, 't) ExecutionStatus) \<times> ('s, 't, 'w) SafeActionExecutor \<times> 'w" where
  "on_failure ex input_data error_msg e w =
     (let ex1 = ex\<lparr>consecutive_failures := consecutive_failures ex + 1\<rparr>
      in case call_handler ex1 e w of
           (Inl raised, w1) \<Rightarrow> (Inl raised, ex1, w1)
         | (Inr u, w1) \<Rightarrow>
             if consecutive_failures ex1 \<ge> max_consecutive_failures ex1
             then (Inl (MaxConsecutiveFailuresError (max_consecutive_failures ex1)), ex1, w1)
             else if raise_on_failure ex1
             then (Inl (StepExecutionFailure error_msg), ex1, w1)
             else (Inr \<lparr>input = input_data, output' = None, success = False,
                        message = error_msg,
                        should_rerun_step_agent =
                          (if consecutive_failures ex1 \<le> max_consecutive_failures ex1
                           then True else False)\<rparr>,
                   ex1, w1))"

text \<open>
  The body of the \<^verbatim>\<open>try\<close> block up to the result of the operation: the precheck, when
  there is one, runs first, and an exception it raises leaves the operation unrun.
\<close>

definition try_block ::
  "('s, 't, 'w) SafeActionExecutor \<Rightarrow> 's \<Rightarrow> 'w \<Rightarrow> (exn + 't option) \<times> 'w" where
  "try_block ex input_data w =
     (case precheck_func ex of
        None \<Rightarrow> func ex input_data w
      | Some precheck \<Rightarrow>
          (case precheck input_data w of
             Some e \<Rightarrow> (Inl e, w)
           | None \<Rightarrow> func ex input_data w))"

text \<open>
  \<^verbatim>\<open>execute\<close>: on a result, reset the counter and return the successful status, whose
  output is the result as it is; the \<^verbatim>\<open>except\<close> clauses, in the order of the source,
  choose the message handed to \<^verbatim>\<open>on_failure\<close>. The last clause is
  \<^verbatim>\<open>except Exception\<close>: an exception of another kind leaves \<^verbatim>\<open>execute\<close> as it is,
  uncounted.
\<close>

definition execute ::
  "('s, 't, 'w) SafeActionExecutor \<Rightarrow> 's \<Rightarrow> 'w
     \<Rightarrow> (exn + ('s, 't) ExecutionStatus) \<times> ('s, 't, 'w) SafeActionExecutor \<times> 'w" where
  "execute ex input_data w =
     (case try_block ex input_data w of
        (Inr result, w1) \<Rightarrow>
          (Inr \<lparr>input = input_data, output' = result, success = True,
                message = ''Successfully executed action with input: '' @ show_input ex input_data,
                should_rerun_step_agent = False\<rparr>,
           ex\<lparr>consecutive_failures := 0\<rparr>, w1)
      | (Inl e, w1) \<Rightarrow>
          if etype e = RateLimitErrorT
          then on_failure ex input_data ''Rate limit reached. Waiting before retry.'' e w1
          else if is_NotteBaseError (etype e)
          then on_failure ex input_data
                 (if raise_on_failure ex then dev_message e else agent_message e) e w1
          else if etype e = ValidationErrorT
          then on_failure ex input_data
                 (''JSON Schema Validation error: The output format is invalid. '' @
                  ''Please ensure your response follows the expected schema. Details: '' @
                  exn_str e) e w1
          else if is_Exception (etype e)
          then on_failure ex input_data (''An unexpected error occurred: '' @ exn_str e) e w1
          else (Inl e, ex, w1))"

text \<open>The message that the \<^verbatim>\<open>except\<close> clauses of \<^verbatim>\<open>execute\<close> select for an error.\<close>

definition classified_message :: "bool \<Rightarrow> exn \<Rightarrow> string" where
  "classified_message raising e =
     (if etype e = RateLimitErrorT then ''Rate limit reached. Waiting before retry.''
      else if is_NotteBaseError (etype e)
      then (if raising then dev_message e else agent_message e)
      else if etype e = ValidationErrorT
      then ''JSON Schema Validation error: The output format is invalid. '' @
           ''Please ensure your response follows the expected schema. Details: '' @ exn_str e
      else ''An unexpected error occurred: '' @ exn_str e)"

text \<open>
  A caller that keeps calling the same executor, whatever each call returned or raised:
  the results in order, and the executor and the state after the last call.
\<close>

fun execute_calls ::
  "('s, 't, 'w) SafeActionExecutor \<Rightarrow> 's list \<Rightarrow> 'w
     \<Rightarrow> (exn + ('s, 't) ExecutionStatus) list \<times> ('s, 't, 'w) SafeActionExecutor \<times> 'w" where
  "execute_calls ex [] w = ([], ex, w)"
| "execute_calls ex (x # xs) w =
     (case execute ex x w of
        (r, ex1, w1) \<Rightarrow>
          (case execute_calls ex1 xs w1 of (rs, ex2, w2) \<Rightarrow> (r # rs, ex2, w2)))"



section \<open>Observations (observation.py)\<close>

text \<open>
  The actions of the controller. Of a candidate action the code at hand reads only its
  \<^verbatim>\<open>id\<close>; the fallback observation and the completion decision are the two special
  actions that the agent builds or returns itself. (Their identifiers are class constants
  declared elsewhere; the selector \<open>action_id\<close> is read on candidate actions only.)
\<close>

datatype CompletionAction =
  CompletionAction (completion_success: bool) (completion_answer: string)

datatype BaseAction =
    Action (action_id: string)
  | FallbackObserveAction
  | Completion CompletionAction

text \<open>
  Modelled from the spec: the class \<^verbatim>\<open>BaseActionSpace\<close> is declared outside the sources
  at hand. The glossary makes an action space the actions currently valid; the two
  functions below call its method \<^verbatim>\<open>actions\<close> with a status and read the \<^verbatim>\<open>id\<close> of
  each action returned, so a space is modelled by that method. \<open>truth\<close> is the value
  of the space in a condition: what \<^verbatim>\<open>__bool__\<close> or \<^verbatim>\<open>__len__\<close> of its class makes
  it, and true when the class has neither. The bound method \<^verbatim>\<open>space.actions\<close> is an
  object that is true in a condition.
\<close>

record BaseActionSpace =
  actions :: "string \<Rightarrow> BaseAction list"
  truth :: bool

record TrajectoryProgress =
  current_step :: int
  max_steps :: int

record ('m, 'd) Observation =
  metadata :: 'm
  screenshot :: "nat list option"
  space :: "BaseActionSpace option"
  data :: "'d option"
  progress :: "TrajectoryProgress option"

definition has_space :: "('m, 'd) Observation \<Rightarrow> bool" where
  "has_space self = (space self \<noteq> None)"

definition has_data :: "('m, 'd) Observation \<Rightarrow> bool" where
  "has_data self = (data self \<noteq> None)"

text \<open>
  \<^verbatim>\<open>Observation.valid_action_set\<close>: the test is
  \<^verbatim>\<open>self.space is not None and self.space.actions\<close>, then the loop adds each identifier.
\<close>

definition valid_action_set :: "('m, 'd) Observation \<Rightarrow> string set" where
  "valid_action_set self =
     (case space self of
        None \<Rightarrow> {}
      | Some sp \<Rightarrow> fold (\<lambda>action acc. insert (action_id action) acc) (actions sp ''all'') {})"

text \<open>
  \<^verbatim>\<open>FalcoAgent._get_valid_action_set\<close>: the test is
  \<^verbatim>\<open>last_obs and last_obs.space and last_obs.space.actions\<close>. The argument is what
  \<^verbatim>\<open>last_obs()\<close> returned, so it may be \<^verbatim>\<open>None\<close>, which is false; an observation is
  an object of a class, declared in observation.py, that is true; the space is tested
  for its truth, not for being there.
\<close>

definition get_valid_action_set :: "('m, 'd) Observation option \<Rightarrow> string set" where
  "get_valid_action_set last_obs =
     (case last_obs of
        None \<Rightarrow> {}
      | Some obs \<Rightarrow>
          (case space obs of
             None \<Rightarrow> {}
           | Some sp \<Rightarrow>
               if truth sp
               then fold (\<lambda>action acc. insert (action_id action) acc) (actions sp ''all'') {}
               else {}))"

section \<open>The trajectory of the agent\<close>

text \<open>
  Modelled from the spec: the class \<^verbatim>\<open>FalcoTrajectoryHistory\<close> is not among the sources
  at hand. The spec gives a step its reasoning output and the ordered results of its
  actions, and the history the ordered steps; \<^verbatim>\<open>addOutput\<close> and \<^verbatim>\<open>addStep\<close> append,
  and the last observation is the output of the most recent result that succeeded
  with an observation. \<^verbatim>\<open>add_output\<close> opens a step (so that
  \<^verbatim>\<open>len(steps) == 1\<close> holds once the first reasoning output is in) and
  \<^verbatim>\<open>add_step\<close> appends a result to the step opened last; the agent calls it only
  after \<^verbatim>\<open>add_output\<close>, and on an empty history, for which the spec names no
  behaviour, the model leaves the history as it is.
\<close>

record ('r, 'o) Step =
  agent_response :: 'r
  results :: "(BaseAction, 'o) ExecutionStatus list"

definition add_output :: "'r \<Rightarrow> ('r, 'o) Step list \<Rightarrow> ('r, 'o) Step list" where
  "add_output response steps = steps @ [\<lparr>agent_response = response, results = []\<rparr>]"

definition add_step ::
  "(BaseAction, 'o) ExecutionStatus \<Rightarrow> ('r, 'o) Step list \<Rightarrow> ('r, 'o) Step list" where
  "add_step st steps =
     (if steps = [] then []
      else butlast steps @ [(last steps)\<lparr>results := results (last steps) @ [st]\<rparr>])"

definition last_obs :: "('r, 'o) Step list \<Rightarrow> 'o option" where
  "last_obs steps =
     (case filter (\<lambda>st. success st \<and> output' st \<noteq> None) (rev (concat (map results steps))) of
        [] \<Rightarrow> None
      | st # _ \<Rightarrow> output' st)"

section \<open>The agent (agent.py)\<close>

datatype RaiseCondition = IMMEDIATELY | RETRY | NEVER

text \<open>
  The fields of the configuration that the step loop and the executor read;
  \<open>env_max_steps\<close> is \<^verbatim>\<open>env.config.max_steps\<close>.
\<close>

record FalcoAgentConfig =
  max_actions_per_step :: int
  raise_condition :: RaiseCondition
  config_max_consecutive_failures :: int
  env_max_steps :: int

record CompletionValidation =
  is_valid :: bool
  reason :: string

text \<open>
  What changes during a run, beside the counter of the executor: the trajectory, the
  conversation and the state \<open>'e\<close> of everything outside (browser session, reasoning
  engine, validator).
\<close>

record ('r, 'o, 'c, 'e) FalcoState =
  trajectory :: "('r, 'o) Step list"
  conv :: 'c
  env :: 'e

text \<open>
  The collaborators of the agent are outside the sources at hand and enter as
  parameters. A call on the outside returns its value or the exception it raised, and
  the state it left.
  \<^item> \<open>get_messages\<close> is \<^verbatim>\<open>FalcoAgent.get_messages\<close>: it resets the conversation and
    fills it again from the task and the trajectory, through the prompt, the perception
    and the conversation buffer; the conversation it leaves is what the reasoning engine
    is given.
  \<^item> \<open>structured_completion\<close> is the reasoning engine; \<open>response_output\<close> and
    \<open>get_actions\<close> read the completion decision and the candidate actions of a
    reasoning output.
  \<^item> \<open>act\<close> is the operation \<^verbatim>\<open>execute_action\<close>: the substitution of credentials, when
    a vault holds some for the action, followed by \<^verbatim>\<open>env.act\<close>; \<open>observe\<close> is
    \<^verbatim>\<open>env.observe\<close>, \<open>env_trajectory_of\<close> reads \<^verbatim>\<open>env.trajectory\<close>, and
    \<open>aenter\<close> and \<open>aexit\<close> are entry to and exit from \<^verbatim>\<open>async with self.env\<close>.
  \<^item> \<open>validate\<close> is the completion validator.
  \<^item> \<open>add_user_message\<close> is the method of the conversation buffer that the handler of
    invalid identifiers calls, for its effect on the buffer; \<open>invalid_action_message\<close> renders the message of
    \<^verbatim>\<open>InvalidActionIDError\<close>; \<open>show_action\<close> and \<open>format_exc\<close> are Python's
    \<^verbatim>\<open>str\<close> on an action and \<^verbatim>\<open>traceback.format_exc\<close>.
  Logging, the optional step callback, the error mode switch, the clock and the usage
  tracer are left out.
\<close>

record ('r, 'o, 'c, 'e) FalcoAgent =
  config :: FalcoAgentConfig
  get_messages :: "string \<Rightarrow> ('r, 'o) Step list \<Rightarrow> 'c \<Rightarrow> 'c"
  structured_completion :: "'c \<Rightarrow> 'e \<Rightarrow> (exn + 'r) \<times> 'e"
  response_output :: "'r \<Rightarrow> CompletionAction option"
  get_actions :: "'r \<Rightarrow> int \<Rightarrow> BaseAction list"
  act :: "BaseAction \<Rightarrow> 'e \<Rightarrow> (exn + 'o) \<times> 'e"
  observe :: "'e \<Rightarrow> (exn + 'o) \<times> 'e"
  env_trajectory_of :: "'e \<Rightarrow> 'o list"
  aenter :: "'e \<Rightarrow> (exn + unit) \<times> 'e"
  aexit :: "'e \<Rightarrow> (exn + unit) \<times> 'e"
  validate :: "string \<Rightarrow> CompletionAction \<Rightarrow> 'o \<Rightarrow> 'e \<Rightarrow> (exn + CompletionValidation) \<times> 'e"
  add_user_message :: "string \<Rightarrow> 'c \<Rightarrow> (exn + unit) \<times> 'c"
  invalid_action_message :: "string \<Rightarrow> string set \<Rightarrow> string"
  show_action :: "BaseAction \<Rightarrow> string"
  format_exc :: "exn \<Rightarrow> string"

record ('r, 'o, 'c) AgentResponse =
  answer :: string
  response_success :: bool
  env_trajectory :: "'o list"
  agent_trajectory :: "('r, 'o) Step list"
  messages :: 'c

subsection \<open>The executor of the agent\<close>

definition is_first_step :: "('r, 'o, 'c, 'e) FalcoState \<Rightarrow> bool" where
  "is_first_step w = (length (trajectory w) = 1)"

text \<open>
  Modelled from the spec: \<^verbatim>\<open>InvalidActionIDError\<close> is imported by agent.py from the
  module of the action errors, whose file at hand does not declare it. It is the
  invalid-action error of the spec, built from the offending identifier and the valid
  ones; its messages are left to the parameter of the agent.
\<close>

definition InvalidActionIDError ::
  "('r, 'o, 'c, 'e) FalcoAgent \<Rightarrow> string \<Rightarrow> string set \<Rightarrow> exn" where
  "InvalidActionIDError A i valid =
     \<lparr>etype = InvalidActionIDErrorT,
      dev_message = invalid_action_message A i valid,
      agent_message = invalid_action_message A i valid,
      exn_str = invalid_action_message A i valid\<rparr>"

text \<open>The check in the body of \<^verbatim>\<open>precheck_action\<close>.\<close>

definition precheck_action ::
  "('r, ('m, 'd) Observation, 'c, 'e) FalcoAgent \<Rightarrow> BaseAction
     \<Rightarrow> ('r, ('m, 'd) Observation, 'c, 'e) FalcoState \<Rightarrow> exn option" where
  "precheck_action A action w =
     (if \<not> is_first_step w
      then (let valid = get_valid_action_set (last_obs (trajectory w))
            in if action_id action \<notin> valid
               then Some (InvalidActionIDError A (action_id action) valid)
               else None)
      else None)"

definition invalid_action_id_handler ::
  "('r, 'o, 'c, 'e) FalcoAgent \<Rightarrow> exn \<Rightarrow> ('r, 'o, 'c, 'e) FalcoState
     \<Rightarrow> (exn + unit) \<times> ('r, 'o, 'c, 'e) FalcoState" where
  "invalid_action_id_handler A e w =
     (case add_user_message A (agent_message e) (conv w) of (r, c1) \<Rightarrow> (r, w\<lparr>conv := c1\<rparr>))"

definition execute_action ::
  "('r, 'o, 'c, 'e) FalcoAgent \<Rightarrow> BaseAction \<Rightarrow> ('r, 'o, 'c, 'e) FalcoState
     \<Rightarrow> (exn + 'o option) \<times> ('r, 'o, 'c, 'e) FalcoState" where
  "execute_action A action w =
     (case act A action (env w) of
        (Inl e, e1) \<Rightarrow> (Inl e, w\<lparr>env := e1\<rparr>)
      | (Inr obs, e1) \<Rightarrow> (Inr (Some obs), w\<lparr>env := e1\<rparr>))"

text \<open>
  An executor wired as \<^verbatim>\<open>FalcoAgent.__init__\<close> wires \<^verbatim>\<open>step_executor\<close>, with the
  precheck given: the operation, the handler registered for the invalid identifier, the
  ceiling of the configuration, and raising on failure exactly under
  \<^verbatim>\<open>RaiseCondition.IMMEDIATELY\<close>.
\<close>

definition executor_with ::
  "(BaseAction \<Rightarrow> ('r, 'o, 'c, 'e) FalcoState \<Rightarrow> exn option) \<Rightarrow> ('r, 'o, 'c, 'e) FalcoAgent
     \<Rightarrow> (BaseAction, 'o, ('r, 'o, 'c, 'e) FalcoState) SafeActionExecutor" where
  "executor_with precheck A =
     \<lparr>func = execute_action A,
      precheck_func = Some precheck,
      on_failure_handlers = [InvalidActionIDErrorT \<mapsto> invalid_action_id_handler A],
      max_consecutive_failures = config_max_consecutive_failures (config A),
      consecutive_failures = 0,
      raise_on_failure = (raise_condition (config A) = IMMEDIATELY),
      show_input = show_action A\<rparr>"

text \<open>The error that this check raises for an action at a state.\<close>

definition invalid_action_error ::
  "('r, ('m, 'd) Observation, 'c, 'e) FalcoAgent \<Rightarrow> BaseAction
     \<Rightarrow> ('r, ('m, 'd) Observation, 'c, 'e) FalcoState \<Rightarrow> exn" where
  "invalid_action_error A action w =
     InvalidActionIDError A (action_id action) (get_valid_action_set (last_obs (trajectory w)))"

text \<open>
  \<^verbatim>\<open>precheck_action\<close> is declared \<^verbatim>\<open>async def\<close>, and \<^verbatim>\<open>execute\<close> calls its precheck
  as a plain function, \<^verbatim>\<open>self.precheck_func(input_data)\<close>, with no \<^verbatim>\<open>await\<close>. Calling
  a coroutine function builds a coroutine object and runs nothing of its body, so the
  call returns without raising whatever the body would do.
\<close>

definition unawaited :: "('s \<Rightarrow> 'w \<Rightarrow> exn option) \<Rightarrow> 's \<Rightarrow> 'w \<Rightarrow> exn option" where
  "unawaited body x w = None"

definition step_executor ::
  "('r, ('m, 'd) Observation, 'c, 'e) FalcoAgent
     \<Rightarrow> (BaseAction, ('m, 'd) Observation, ('r, ('m, 'd) Observation, 'c, 'e) FalcoState)
          SafeActionExecutor" where
  "step_executor A = executor_with (unawaited (precheck_action A)) A"

subsection \<open>One step\<close>

text \<open>
  The state of a run is the executor (\<open>'x\<close>, of which the step only calls
  \<^verbatim>\<open>execute\<close>) and the state of the agent. \<^verbatim>\<open>step\<close> calls itself when a result asks
  for a re-run, with nothing that bounds the calls in the function itself; the model
  counts the nested calls down from \<open>fuel\<close> and returns \<open>None\<close> when they run out.
  A result is the exception raised or the value returned, with the state reached.
\<close>

type_synonym ('x, 'r, 'o, 'c, 'e) run_state = "'x \<times> ('r, 'o, 'c, 'e) FalcoState"

type_synonym ('x, 'r, 'o, 'c, 'e) executor_call =
  "BaseAction \<Rightarrow> ('x, 'r, 'o, 'c, 'e) run_state
     \<Rightarrow> (exn + (BaseAction, 'o) ExecutionStatus) \<times> ('x, 'r, 'o, 'c, 'e) run_state"

type_synonym ('x, 'r, 'o, 'c, 'e) step_result =
  "((exn + CompletionAction option) \<times> ('x, 'r, 'o, 'c, 'e) run_state) option"

definition executor_call ::
  "BaseAction \<Rightarrow> ((BaseAction, 'o, ('r, 'o, 'c, 'e) FalcoState) SafeActionExecutor, 'r, 'o, 'c, 'e) run_state
     \<Rightarrow> (exn + (BaseAction, 'o) ExecutionStatus)
        \<times> ((BaseAction, 'o, ('r, 'o, 'c, 'e) FalcoState) SafeActionExecutor, 'r, 'o, 'c, 'e) run_state" where
  "executor_call action s = (case s of (ex, w) \<Rightarrow> execute ex action w)"

text \<open>
  The loop over the candidate actions of \<^verbatim>\<open>step\<close>; \<open>rerun\<close> is the call
  \<^verbatim>\<open>self.step(task)\<close> of the re-run.
\<close>

fun actions_loop ::
  "(('x, 'r, 'o, 'c, 'e) run_state \<Rightarrow> ('x, 'r, 'o, 'c, 'e) step_result)
     \<Rightarrow> ('r, 'o, 'c, 'e) FalcoAgent \<Rightarrow> ('x, 'r, 'o, 'c, 'e) executor_call \<Rightarrow> 'r
     \<Rightarrow> BaseAction list \<Rightarrow> ('x, 'r, 'o, 'c, 'e) run_state \<Rightarrow> ('x, 'r, 'o, 'c, 'e) step_result" where
  "actions_loop rerun A exec response [] s = Some (Inr None, s)"
| "actions_loop rerun A exec response (action # rest) s =
     (case exec action s of
        (Inl e, s1) \<Rightarrow> Some (Inl e, s1)
      | (Inr result, (x1, w1)) \<Rightarrow>
          if should_rerun_step_agent result then rerun (x1, w1)
          else
            (let w2 = w1\<lparr>trajectory := add_step result (trajectory w1)\<rparr>
             in if \<not> success result
                then (case observe A (env w2) of
                        (Inl e, e3) \<Rightarrow> Some (Inl e, (x1, w2\<lparr>env := e3\<rparr>))
                      | (Inr obs, e3) \<Rightarrow>
                          (let ex_status =
                                 \<lparr>input = FallbackObserveAction, output' = Some obs,
                                  success = True, message = ''Observed'',
                                  should_rerun_step_agent = False\<rparr>
                           in Some (Inr None,
                                    (x1, w2\<lparr>env := e3,
                                            trajectory :=
                                              add_step ex_status
                                                (add_output response (trajectory w2))\<rparr>))))
                else actions_loop rerun A exec response rest (x1, w2)))"

primrec step ::
  "nat \<Rightarrow> ('r, 'o, 'c, 'e) FalcoAgent \<Rightarrow> ('x, 'r, 'o, 'c, 'e) executor_call \<Rightarrow> string
     \<Rightarrow> ('x, 'r, 'o, 'c, 'e) run_state \<Rightarrow> ('x, 'r, 'o, 'c, 'e) step_result" where
  "step 0 A exec task s = None"
| "step (Suc fuel) A exec task s =
     (case s of (x, w) \<Rightarrow>
        (let w1 = w\<lparr>conv := get_messages A task (trajectory w) (conv w)\<rparr>
         in case structured_completion A (conv w1) (env w1) of
              (Inl e, e2) \<Rightarrow> Some (Inl e, (x, w1\<lparr>env := e2\<rparr>))
            | (Inr response, e2) \<Rightarrow>
                (let w2 = w1\<lparr>env := e2, trajectory := add_output response (trajectory w1)\<rparr>
                 in case response_output A response of
                      Some out \<Rightarrow> Some (Inr (Some out), (x, w2))
                    | None \<Rightarrow>
                        actions_loop (step fuel A exec task) A exec response
                          (get_actions A response (max_actions_per_step (config A))) (x, w2))))"

subsection \<open>The run\<close>

text \<open>\<^verbatim>\<open>FalcoAgent.output\<close>, without the duration and the usage statistics.\<close>

definition output_response ::
  "('r, 'o, 'c, 'e) FalcoAgent \<Rightarrow> ('r, 'o, 'c, 'e) FalcoState \<Rightarrow> string \<Rightarrow> bool
     \<Rightarrow> ('r, 'o, 'c) AgentResponse" where
  "output_response A w ans ok =
     \<lparr>answer = ans, response_success = ok, env_trajectory = env_trajectory_of A (env w),
      agent_trajectory = trajectory w, messages = conv w\<rparr>"

definition IndexError :: exn where
  "IndexError =
     \<lparr>etype = PyExceptionT ''IndexError'', dev_message = [], agent_message = [],
      exn_str = ''list index out of range''\<rparr>"

text \<open>
  The \<^verbatim>\<open>for\<close> loop of \<^verbatim>\<open>_run\<close> with \<open>k\<close> iterations left. It returns the response of
  a \<^verbatim>\<open>return\<close> inside the loop, or \<open>None\<close> when the iterations are used up.
\<close>

fun run_loop ::
  "nat \<Rightarrow> nat \<Rightarrow> ('r, 'o, 'c, 'e) FalcoAgent \<Rightarrow> ('x, 'r, 'o, 'c, 'e) executor_call \<Rightarrow> string
     \<Rightarrow> ('x, 'r, 'o, 'c, 'e) run_state
     \<Rightarrow> ((exn + ('r, 'o, 'c) AgentResponse option) \<times> ('x, 'r, 'o, 'c, 'e) run_state) option" where
  "run_loop 0 fuel A exec task s = Some (Inr None, s)"
| "run_loop (Suc k) fuel A exec task s =
     (case step fuel A exec task s of
        None \<Rightarrow> None
      | Some (Inl e, s1) \<Rightarrow> Some (Inl e, s1)
      | Some (Inr None, s1) \<Rightarrow> run_loop k fuel A exec task s1
      | Some (Inr (Some out), (x1, w1)) \<Rightarrow>
          if \<not> completion_success out
          then Some (Inr (Some (output_response A w1 (completion_answer out) False)), (x1, w1))
          else
            (case env_trajectory_of A (env w1) of
               [] \<Rightarrow> Some (Inl IndexError, (x1, w1))
             | o1 # os \<Rightarrow>
                 (case validate A task out (last (o1 # os)) (env w1) of
                    (Inl e, e2) \<Rightarrow> Some (Inl e, (x1, w1\<lparr>env := e2\<rparr>))
                  | (Inr val, e2) \<Rightarrow>
                      (let w2 = w1\<lparr>env := e2\<rparr>
                       in if is_valid val
                          then Some (Inr (Some (output_response A w2 (completion_answer out)
                                                  (completion_success out))), (x1, w2))
                          else run_loop k fuel A exec task
                                 (x1, w2\<lparr>trajectory :=
                                           add_step
                                             \<lparr>input = Completion out, output' = None,
                                              success = False,
                                              message = ''Final validation failed: '' @ reason val @
                                                        ''. Continuing...'',
                                              should_rerun_step_agent = False\<rparr>
                                             (trajectory w2)\<rparr>)))))"

text \<open>
  \<^verbatim>\<open>FalcoAgent._run\<close>: the task is prefixed with the start address when one is given;
  the loop runs inside \<^verbatim>\<open>async with self.env\<close>, whose exit runs on every way out of
  the block and lets an exception of the block pass; the budget message is built after
  the block.
\<close>

definition start_task :: "string \<Rightarrow> string option \<Rightarrow> string" where
  "start_task task url =
     (case url of
        None \<Rightarrow> task
      | Some u \<Rightarrow> ''Start on '' @ [CHR 0x27] @ u @ [CHR 0x27] @ '' and '' @ task)"

definition inner_run ::
  "nat \<Rightarrow> ('r, 'o, 'c, 'e) FalcoAgent \<Rightarrow> ('x, 'r, 'o, 'c, 'e) executor_call \<Rightarrow> string
     \<Rightarrow> string option \<Rightarrow> ('x, 'r, 'o, 'c, 'e) run_state
     \<Rightarrow> ((exn + ('r, 'o, 'c) AgentResponse) \<times> ('x, 'r, 'o, 'c, 'e) run_state) option" where
  "inner_run fuel A exec task url s =
     (case s of (x, w) \<Rightarrow>
        (let task1 = start_task task url
         in case aenter A (env w) of
              (Inl e, e1) \<Rightarrow> Some (Inl e, (x, w\<lparr>env := e1\<rparr>))
            | (Inr u, e1) \<Rightarrow>
                (case run_loop (nat (env_max_steps (config A))) fuel A exec task1
                        (x, w\<lparr>env := e1\<rparr>) of
                   None \<Rightarrow> None
                 | Some (r, (x2, w2)) \<Rightarrow>
                     (case aexit A (env w2) of
                        (Inl e, e3) \<Rightarrow> Some (Inl e, (x2, w2\<lparr>env := e3\<rparr>))
                      | (Inr u, e3) \<Rightarrow>
                          (let w3 = w2\<lparr>env := e3\<rparr>
                           in case r of
                                Inl e \<Rightarrow> Some (Inl e, (x2, w3))
                              | Inr (Some resp) \<Rightarrow> Some (Inr resp, (x2, w3))
                              | Inr None \<Rightarrow>
                                  Some (Inr (output_response A w3
                                               (''Failed to solve task in '' @
                                                str_int (env_max_steps (config A)) @ '' steps'')
                                               False),
                                        (x2, w3)))))))"

text \<open>
  \<^verbatim>\<open>FalcoAgent.run\<close>: the handler is \<^verbatim>\<open>except Exception\<close>. An exception of
  \<^verbatim>\<open>_run\<close> that it catches becomes a failed response under
  \<^verbatim>\<open>RaiseCondition.NEVER\<close> and is raised again otherwise; one that it does not catch
  leaves \<^verbatim>\<open>run\<close> whatever the condition.
\<close>

definition run ::
  "nat \<Rightarrow> ('r, 'o, 'c, 'e) FalcoAgent \<Rightarrow> ('x, 'r, 'o, 'c, 'e) executor_call \<Rightarrow> string
     \<Rightarrow> string option \<Rightarrow> ('x, 'r, 'o, 'c, 'e) run_state
     \<Rightarrow> ((exn + ('r, 'o, 'c) AgentResponse) \<times> ('x, 'r, 'o, 'c, 'e) run_state) option" where
  "run fuel A exec task url s =
     (case inner_run fuel A exec task url s of
        None \<Rightarrow> None
      | Some (Inr resp, s1) \<Rightarrow> Some (Inr resp, s1)
      | Some (Inl e, (x1, w1)) \<Rightarrow>
          if is_Exception (etype e)
          then (if raise_condition (config A) = NEVER
                then Some (Inr (output_response A w1
                                  (''Failed due to '' @ exn_str e @ '': '' @ format_exc A e)
                                  False),
                           (x1, w1))
                else Some (Inl e, (x1, w1)))
          else Some (Inl e, (x1, w1)))"

text \<open>
  The state after \<open>k\<close> iterations of the loop of \<^verbatim>\<open>_run\<close> none of which ends the
  run: each step returns without raising, and either with no completion decision or
  with one that reports success and that the validator, asked without raising, rejects.
  \<open>None\<close> when some iteration among them ends the run.
\<close>

fun steps_without_end ::
  "nat \<Rightarrow> nat \<Rightarrow> ('r, 'o, 'c, 'e) FalcoAgent \<Rightarrow> ('x, 'r, 'o, 'c, 'e) executor_call \<Rightarrow> string
     \<Rightarrow> ('x, 'r, 'o, 'c, 'e) run_state \<Rightarrow> ('x, 'r, 'o, 'c, 'e) run_state option" where
  "steps_without_end 0 fuel A exec task s = Some s"
| "steps_without_end (Suc k) fuel A exec task s =
     (case step fuel A exec task s of
        None \<Rightarrow> None
      | Some (Inl e, s1) \<Rightarrow> None
      | Some (Inr None, s1) \<Rightarrow> steps_without_end k fuel A exec task s1
      | Some (Inr (Some out), (x1, w1)) \<Rightarrow>
          if \<not> completion_success out then None
          else
            (case env_trajectory_of A (env w1) of
               [] \<Rightarrow> None
             | o1 # os \<Rightarrow>
                 (case validate A task out (last (o1 # os)) (env w1) of
                    (Inl e, e2) \<Rightarrow> None
                  | (Inr val, e2) \<Rightarrow>
                      if is_valid val then None
                      else steps_without_end k fuel A exec task
                             (x1, w1\<lparr>env := e2,
                                     trajectory :=
                                       add_step
                                         \<lparr>input = Completion out, output' = None,
                                          success = False,
                                          message = ''Final validation failed: '' @
                                                    reason val @ ''. Continuing...'',
                                          should_rerun_step_agent = False\<rparr>
                                         (trajectory w1)\<rparr>))))"

section \<open>Sample instances\<close>

text \<open>
  A small executor over numbers: the operation raises on input \<open>0\<close> and otherwise
  returns a number; each call moves the state on by one.
\<close>

definition sample_error :: exn where
  "sample_error =
     \<lparr>etype = PyExceptionT ''RuntimeError'', dev_message = [], agent_message = [],
      exn_str = ''boom''\<rparr>"

definition sample_executor :: "bool \<Rightarrow> (nat, nat, nat) SafeActionExecutor" where
  "sample_executor raising =
     \<lparr>func = (\<lambda>x w. if x = 0 then (Inl sample_error, Suc w) else (Inr (Some (x + w)), Suc w)),
      precheck_func = None,
      on_failure_handlers = Map.empty,
      max_consecutive_failures = 3,
      consecutive_failures = 0,
      raise_on_failure = raising,
      show_input = (\<lambda>x. ''n'')\<rparr>"

text \<open>
  The same executor with a handler, registered for the error of the operation, that
  raises; and one whose operation returns \<^verbatim>\<open>None\<close>.
\<close>

definition sample_handler_error :: exn where
  "sample_handler_error =
     \<lparr>etype = PyExceptionT ''KeyError'', dev_message = [], agent_message = [],
      exn_str = ''handler''\<rparr>"

definition sample_raising_handler :: "(nat, nat, nat) SafeActionExecutor" where
  "sample_raising_handler =
     (sample_executor False)
       \<lparr>on_failure_handlers :=
          [PyExceptionT ''RuntimeError'' \<mapsto> (\<lambda>e w. (Inl sample_handler_error, w))]\<rparr>"

definition sample_returning_none :: "(nat, nat, nat) SafeActionExecutor" where
  "sample_returning_none = (sample_executor False)\<lparr>func := (\<lambda>x w. (Inr None, Suc w))\<rparr>"

text \<open>
  A small agent. Its reasoning engine answers by a script over the number of calls made
  so far, its browser offers the actions \<open>B1\<close> and \<open>L2\<close> and accepts the actions that
  \<open>act_ok\<close> accepts, and its validator answers \<open>valid\<close>; a reasoning output is a
  completion decision, if any, and the candidate actions; the conversation is the list
  of its user messages.
\<close>

type_synonym sample_output = "CompletionAction option \<times> BaseAction list"

definition sample_observation :: "(unit, unit) Observation" where
  "sample_observation =
     \<lparr>metadata = (), screenshot = None,
      space = Some \<lparr>actions = (\<lambda>status. [Action ''B1'', Action ''L2'']), truth = True\<rparr>,
      data = None, progress = None\<rparr>"

definition sample_agent ::
  "(nat \<Rightarrow> sample_output) \<Rightarrow> (BaseAction \<Rightarrow> bool) \<Rightarrow> bool \<Rightarrow> RaiseCondition
     \<Rightarrow> (sample_output, (unit, unit) Observation, string list, nat) FalcoAgent" where
  "sample_agent script act_ok valid rc =
     \<lparr>config = \<lparr>max_actions_per_step = 1, raise_condition = rc,
                config_max_consecutive_failures = 3, env_max_steps = 5\<rparr>,
      get_messages = (\<lambda>task steps c. [task]),
      structured_completion = (\<lambda>c e. (Inr (script e), Suc e)),
      response_output = fst,
      get_actions = (\<lambda>r n. take (nat n) (snd r)),
      act = (\<lambda>a e. if act_ok a then (Inr sample_observation, e) else (Inl sample_error, e)),
      observe = (\<lambda>e. (Inr sample_observation, e)),
      env_trajectory_of = (\<lambda>e. [sample_observation]),
      aenter = (\<lambda>e. (Inr (), e)),
      aexit = (\<lambda>e. (Inr (), e)),
      validate = (\<lambda>task out obs e. (Inr \<lparr>is_valid = valid, reason = ''not done''\<rparr>, e)),
      add_user_message = (\<lambda>m c. (Inr (), c @ [m])),
      invalid_action_message = (\<lambda>i valid. ''invalid action '' @ i),
      show_action = (\<lambda>a. ''action''),
      format_exc = (\<lambda>e. ''Traceback'')\<rparr>"

definition always_click :: "nat \<Rightarrow> sample_output" where
  "always_click n = (None, [Action ''B1''])"



definition accepts :: "BaseAction \<Rightarrow> bool" where
  "accepts a = True"

definition rejects :: "BaseAction \<Rightarrow> bool" where
  "rejects a = False"

text \<open>
  An observation whose space is false in a condition although it offers an action, and
  an agent whose reasoning engine is cancelled.
\<close>

definition sample_false_space :: "(unit, unit) Observation" where
  "sample_false_space =
     \<lparr>metadata = (), screenshot = None,
      space = Some \<lparr>actions = (\<lambda>status. [Action ''B1'']), truth = False\<rparr>,
      data = None, progress = None\<rparr>"

definition CancelledError :: exn where
  "CancelledError =
     \<lparr>etype = BaseExceptionT ''CancelledError'', dev_message = [], agent_message = [],
      exn_str = []\<rparr>"

definition sample_cancelled_agent ::
  "(sample_output, (unit, unit) Observation, string list, nat) FalcoAgent" where
  "sample_cancelled_agent =
     (sample_agent always_click accepts True NEVER)
       \<lparr>structured_completion := (\<lambda>c e. (Inl CancelledError, e))\<rparr>"

definition sample_state ::
  "(sample_output, (unit, unit) Observation, string list, nat) FalcoState" where
  "sample_state = \<lparr>trajectory = [], conv = [], env = 0\<rparr>"

text \<open>The state after one step that clicked \<open>B1\<close> and got the sample observation.\<close>

definition sample_second_step ::
  "(sample_output, (unit, unit) Observation, string list, nat) FalcoState" where
  "sample_second_step =
     \<lparr>trajectory =
        [\<lparr>agent_response = (None, [Action ''B1'']),
          results = [\<lparr>input = Action ''B1'', output' = Some sample_observation, success = True,
                      message = ''ok'', should_rerun_step_agent = False\<rparr>]\<rparr>,
         \<lparr>agent_response = (None, [Action ''X9'']), results = []\<rparr>],
      conv = [], env = 1\<rparr>"

text \<open>An executor whose failures do not ask for a re-run; it has no state of its own.\<close>

definition sample_failing_call ::
  "(unit, sample_output, (unit, unit) Observation, string list, nat) executor_call" where
  "sample_failing_call action s =
     (Inr \<lparr>input = action, output' = None, success = False, message = ''failed'',
           should_rerun_step_agent = False\<rparr>, s)"

section \<open>Properties of the safe executor\<close>

lemma call_handler_counter [simp]:
  "call_handler (ex\<lparr>consecutive_failures := k\<rparr>) e w = call_handler ex e w"
  by (simp add: call_handler_def)

lemma execute_failed:
  "try_block ex x w = (Inl e, w1) \<Longrightarrow> is_Exception (etype e) \<Longrightarrow>
   execute ex x w = on_failure ex x (classified_message (raise_on_failure ex) e) e w1"
  by (simp add: execute_def classified_message_def)

lemma execute_succeeded:
  "try_block ex x w = (Inr r, w1) \<Longrightarrow>
   execute ex x w =
     (Inr \<lparr>input = x, output' = r, success = True,
           message = ''Successfully executed action with input: '' @ show_input ex x,
           should_rerun_step_agent = False\<rparr>,
      ex\<lparr>consecutive_failures := 0\<rparr>, w1)"
  by (simp add: execute_def)

lemma on_failure_executor:
  "fst (snd (on_failure ex x m e w)) = ex\<lparr>consecutive_failures := consecutive_failures ex + 1\<rparr>"
  by (simp add: on_failure_def Let_def split: prod.splits sum.splits)

lemma on_failure_handler_raises:
  "call_handler ex e w = (Inl raised, w1) \<Longrightarrow> fst (on_failure ex x m e w) = Inl raised"
  by (simp add: on_failure_def Let_def)


lemma on_failure_below_ceiling:
  "call_handler ex e w = (Inr u, w1) \<Longrightarrow>
   consecutive_failures ex + 1 < max_consecutive_failures ex \<Longrightarrow> \<not> raise_on_failure ex \<Longrightarrow>
   fst (on_failure ex x m e w) =
     Inr \<lparr>input = x, output' = None, success = False, message = m,
          should_rerun_step_agent = True\<rparr>"
  by (simp add: on_failure_def Let_def)

text \<open>
  A failed status that \<^verbatim>\<open>execute\<close> returns always asks for a re-run: it is returned
  below the ceiling only, where the comparison of \<^verbatim>\<open>on_failure\<close> holds.
\<close>

lemma execute_failure_reruns:
  "execute ex x w = (Inr st, ex1, w1) \<Longrightarrow> \<not> success st \<Longrightarrow> should_rerun_step_agent st"
  by (auto simp: execute_def on_failure_def Let_def split: prod.splits sum.splits if_splits)






text \<open>
  C3, as amended. A status that \<^verbatim>\<open>execute\<close> returns carries, when it reports success,
  the result of the operation as its output, which is present unless the operation
  returned \<^verbatim>\<open>None\<close>; it has no output when it reports failure with
  \<^verbatim>\<open>raise_on_failure\<close> unset, and it asks for a re-run only when it reports failure.
\<close>

theorem execution_status_envelope:
  assumes "execute ex x w = (Inr st, ex1, w1)"
  shows "(success st \<longrightarrow> fst (try_block ex x w) = Inr (output' st))
       \<and> (\<not> success st \<and> \<not> raise_on_failure ex \<longrightarrow> output' st = None)
       \<and> (should_rerun_step_agent st \<longrightarrow> \<not> success st)"
  using assms
  by (auto simp: execute_def on_failure_def Let_def split: prod.splits sum.splits if_splits)

theorem execution_status_envelope_witness:
  "(\<exists>st ex1 w1. execute (sample_executor False) 4 0 = (Inr st, ex1, w1)
       \<and> success st \<and> output' st = Some 4 \<and> \<not> should_rerun_step_agent st)
   \<and> (\<exists>st ex1 w1. execute (sample_executor False) 0 0 = (Inr st, ex1, w1)
       \<and> \<not> success st \<and> output' st = None)"
proof -
  obtain st ex1 w1 where a: "execute (sample_executor False) 4 0 = (Inr st, ex1, w1)" "success st"
    by (simp add: execute_def try_block_def sample_executor_def)
  have t: "fst (try_block (sample_executor False) 4 0) = Inr (Some 4)"
    by (simp add: try_block_def sample_executor_def)
  obtain st' ex1' w1' where b: "execute (sample_executor False) 0 0 = (Inr st', ex1', w1')"
    "\<not> success st'" "\<not> raise_on_failure (sample_executor False)"
    by (simp add: execute_def try_block_def on_failure_def call_handler_def sample_executor_def
        sample_error_def Let_def)
  from execution_status_envelope [OF a(1)] a t execution_status_envelope [OF b(1)] b
  show ?thesis by auto
qed

text \<open>
  The claim as it stands fails for an operation that returns \<^verbatim>\<open>None\<close>: the status
  reports success and has no output.
\<close>

theorem success_without_output:
  "fst (execute sample_returning_none 4 0) =
     Inr \<lparr>input = 4, output' = None, success = True,
          message = ''Successfully executed action with input: n'',
          should_rerun_step_agent = False\<rparr>"
  by (simp add: execute_def try_block_def sample_returning_none_def sample_executor_def)

text \<open>
  C4. Whatever calls came before (the executor and the state are arbitrary), the counter
  is \<open>0\<close> right after a call of \<^verbatim>\<open>execute\<close> that returned a successful status.
\<close>

theorem success_resets_counter:
  assumes "execute ex x w = (Inr st, ex1, w1)" and "success st"
  shows "consecutive_failures ex1 = 0"
  using assms
  by (auto simp: execute_def on_failure_def Let_def split: prod.splits sum.splits if_splits)

theorem success_resets_counter_witness:
  "consecutive_failures (fst (snd (execute_calls (sample_executor False) [0, 0] 0))) = 2
   \<and> consecutive_failures
       (fst (snd (execute (fst (snd (execute_calls (sample_executor False) [0, 0] 0))) 7 2))) = 0"
proof -
  let ?ex = "fst (snd (execute_calls (sample_executor False) [0, 0] 0))"
  have c: "consecutive_failures ?ex = 2"
    by (simp add: execute_def try_block_def on_failure_def call_handler_def sample_executor_def
        sample_error_def Let_def)
  obtain st ex1 w1 where a: "execute ?ex 7 2 = (Inr st, ex1, w1)" "success st"
    by (simp add: execute_def try_block_def on_failure_def call_handler_def sample_executor_def
        sample_error_def Let_def)
  from success_resets_counter [OF a] a(1) c show ?thesis by simp
qed

text \<open>
  C5, as amended. When a call of \<^verbatim>\<open>execute\<close> fails with an error \<open>e\<close> that is an
  instance of \<^verbatim>\<open>Exception\<close>, the failure handler, if one is registered for \<open>e\<close>,
  returns, the counter after its increment is below the ceiling and
  \<^verbatim>\<open>raise_on_failure\<close> is unset, the call returns exactly the failed status: the input,
  no output, the message that the \<^verbatim>\<open>except\<close> clauses select for \<open>e\<close>, and the
  re-run flag \<^verbatim>\<open>consecutive_failures <= max_consecutive_failures\<close> read on the
  incremented counter.
\<close>

theorem failed_status_returned:
  assumes "try_block ex x w = (Inl e, w1)"
    and "is_Exception (etype e)"
    and "call_handler ex e w1 = (Inr u, w2)"
    and "consecutive_failures ex + 1 < max_consecutive_failures ex"
    and "\<not> raise_on_failure ex"
  shows "fst (execute ex x w) =
           Inr \<lparr>input = x, output' = None, success = False,
                message = classified_message False e,
                should_rerun_step_agent =
                  (consecutive_failures (fst (snd (execute ex x w)))
                     \<le> max_consecutive_failures ex)\<rparr>
         \<and> consecutive_failures (fst (snd (execute ex x w))) = consecutive_failures ex + 1"
  using assms
  by (simp add: execute_failed on_failure_below_ceiling [OF assms(3)] on_failure_executor)

theorem failed_status_returned_witness:
  "fst (execute (sample_executor False) 0 5) =
     Inr \<lparr>input = 0, output' = None, success = False,
          message = ''An unexpected error occurred: boom'',
          should_rerun_step_agent = True\<rparr>
   \<and> consecutive_failures (fst (snd (execute (sample_executor False) 0 5))) = 1"
proof -
  have t: "try_block (sample_executor False) 0 5 = (Inl sample_error, 6)"
    by (simp add: try_block_def sample_executor_def)
  have i: "is_Exception (etype sample_error)" by (simp add: sample_error_def)
  have h: "call_handler (sample_executor False) sample_error 6 = (Inr (), 6)"
    by (simp add: call_handler_def sample_executor_def)
  have "consecutive_failures (sample_executor False) + 1
          < max_consecutive_failures (sample_executor False)"
    and "\<not> raise_on_failure (sample_executor False)"
    by (simp_all add: sample_executor_def)
  from failed_status_returned [OF t i h this]
  show ?thesis by (simp add: classified_message_def sample_error_def sample_executor_def)
qed

text \<open>
  The claim as it stands fails when the failure handler raises: below the ceiling and
  with \<^verbatim>\<open>raise_on_failure\<close> unset, the call raises the exception of the handler and
  returns no status.
\<close>

theorem handler_raises_below_ceiling:
  "try_block sample_raising_handler 0 5 = (Inl sample_error, 6)
   \<and> consecutive_failures sample_raising_handler + 1 < max_consecutive_failures sample_raising_handler
   \<and> \<not> raise_on_failure sample_raising_handler
   \<and> fst (execute sample_raising_handler 0 5) = Inl sample_handler_error"
  by (simp add: try_block_def execute_def on_failure_def call_handler_def
      sample_raising_handler_def sample_executor_def sample_error_def Let_def)

section \<open>The two definitions of the valid identifiers\<close>

text \<open>
  C10, as amended. On every observation that has no space, or a space that is true in a
  condition, the helper of the agent and the method of the observation give the same set
  of identifiers; on a space that is false the helper gives the empty set.
\<close>

theorem get_valid_action_set_eq:
  "(case space obs of None \<Rightarrow> get_valid_action_set (Some obs) = valid_action_set obs
    | Some sp \<Rightarrow>
        (truth sp \<longrightarrow> get_valid_action_set (Some obs) = valid_action_set obs)
        \<and> (\<not> truth sp \<longrightarrow> get_valid_action_set (Some obs) = {}))"
  by (simp add: get_valid_action_set_def valid_action_set_def split: option.splits)

theorem get_valid_action_set_eq_witness:
  "get_valid_action_set (Some sample_observation) = valid_action_set sample_observation
   \<and> valid_action_set sample_observation = {''B1'', ''L2''}"
  using get_valid_action_set_eq [of sample_observation]
  by (simp add: sample_observation_def valid_action_set_def insert_commute)

text \<open>
  The claim as it stands fails on a space that is false in a condition and offers an
  action: the helper gives no identifier and the method gives the identifier of the
  action.
\<close>

theorem false_space_sets_differ:
  "get_valid_action_set (Some sample_false_space) = {}
   \<and> valid_action_set sample_false_space = {''B1''}"
  by (simp add: get_valid_action_set_def valid_action_set_def sample_false_space_def)


section \<open>Properties of the step loop\<close>

lemma precheck_action_invalid:
  "\<not> is_first_step w \<Longrightarrow> action_id action \<notin> get_valid_action_set (last_obs (trajectory w)) \<Longrightarrow>
   precheck_action A action w = Some (invalid_action_error A action w)"
  by (simp add: precheck_action_def invalid_action_error_def Let_def)

text \<open>
  With the precheck wired as in \<^verbatim>\<open>FalcoAgent.__init__\<close>, the call of the precheck
  raises nothing, and the \<^verbatim>\<open>try\<close> block goes on to the operation for every action.
\<close>

lemma step_executor_runs_operation:
  "try_block (step_executor A) action w = execute_action A action w"
  by (simp add: try_block_def step_executor_def executor_with_def unawaited_def)

text \<open>
  C1. The executor that the agent builds does not treat an invalid identifier as an
  invalid-action failure. At a second step whose last observation offers \<open>B1\<close> and
  \<open>L2\<close>, the candidate action \<open>X9\<close> is one for which the check in the body of
  \<^verbatim>\<open>precheck_action\<close> raises \<^verbatim>\<open>InvalidActionIDError\<close>; yet \<^verbatim>\<open>execute\<close>, whose call
  of the precheck runs nothing of that body, runs the operation and returns its
  successful status, with no re-run asked, the counter at \<open>0\<close> and the conversation
  as it was.
\<close>

theorem invalid_action_executed:
  "precheck_action (sample_agent always_click accepts True RETRY) (Action ''X9'')
     sample_second_step =
     Some (invalid_action_error (sample_agent always_click accepts True RETRY) (Action ''X9'')
             sample_second_step)
   \<and> execute (step_executor (sample_agent always_click accepts True RETRY)) (Action ''X9'')
       sample_second_step =
       (Inr \<lparr>input = Action ''X9'', output' = Some sample_observation, success = True,
             message = ''Successfully executed action with input: action'',
             should_rerun_step_agent = False\<rparr>,
        step_executor (sample_agent always_click accepts True RETRY),
        sample_second_step)"
proof -
  let ?A = "sample_agent always_click accepts True RETRY"
  have 1: "\<not> is_first_step sample_second_step"
    by (simp add: is_first_step_def sample_second_step_def)
  have 2: "action_id (Action ''X9'') \<notin> get_valid_action_set (last_obs (trajectory sample_second_step))"
    by (simp add: sample_second_step_def last_obs_def get_valid_action_set_def
        sample_observation_def)
  have 3: "execute_action ?A (Action ''X9'') sample_second_step =
             (Inr (Some sample_observation), sample_second_step)"
    by (simp add: execute_action_def sample_agent_def accepts_def sample_second_step_def)
  have 4: "(step_executor ?A)\<lparr>consecutive_failures := 0\<rparr> = step_executor ?A"
    and 5: "show_input (step_executor ?A) (Action ''X9'') = ''action''"
    by (simp_all add: step_executor_def executor_with_def sample_agent_def)
  show ?thesis
    using precheck_action_invalid [OF 1 2, of ?A]
      execute_succeeded [of "step_executor ?A" "Action ''X9''" sample_second_step
        "Some sample_observation" sample_second_step]
    by (simp add: step_executor_runs_operation 3 4 5)
qed

text \<open>
  C6. In the loop of \<^verbatim>\<open>step\<close> over the candidate actions: when the executor returns,
  for the action at hand, a failed status that does not ask for a re-run, and the fresh
  observation is obtained, the step records the failed status, then opens a trajectory
  entry for the same reasoning output and records in it the successful status of
  \<^verbatim>\<open>FallbackObserveAction\<close> whose output is the observation, and returns without
  executing the remaining candidate actions.
\<close>

theorem fallback_observation:
  assumes "exec action s = (Inr result, (x1, w1))"
    and "\<not> success result"
    and "\<not> should_rerun_step_agent result"
    and "observe A (env w1) = (Inr obs, e3)"
  shows "actions_loop rerun A exec response (action # rest) s =
           Some (Inr None,
                 (x1, w1\<lparr>env := e3,
                         trajectory :=
                           add_step \<lparr>input = FallbackObserveAction, output' = Some obs,
                                     success = True, message = ''Observed'',
                                     should_rerun_step_agent = False\<rparr>
                             (add_output response (add_step result (trajectory w1)))\<rparr>))"
  using assms by (simp add: Let_def)

theorem fallback_observation_witness:
  "map_option (\<lambda>r. (fst r, map results (trajectory (snd (snd r)))))
     (step 1 (sample_agent always_click accepts True RETRY) sample_failing_call ''t''
        ((), sample_state)) =
   Some (Inr None,
         [[\<lparr>input = Action ''B1'', output' = None, success = False, message = ''failed'',
            should_rerun_step_agent = False\<rparr>],
          [\<lparr>input = FallbackObserveAction, output' = Some sample_observation, success = True,
            message = ''Observed'', should_rerun_step_agent = False\<rparr>]])"
proof -
  let ?A = "sample_agent always_click accepts True RETRY"
  let ?w = "sample_state\<lparr>conv := [''t''], env := 1,
              trajectory := add_output (None, [Action ''B1'']) []\<rparr>"
  let ?st = "\<lparr>input = Action ''B1'', output' = None, success = False, message = ''failed'',
              should_rerun_step_agent = False\<rparr> :: (BaseAction, (unit, unit) Observation) ExecutionStatus"
  have s: "step 1 ?A sample_failing_call ''t'' ((), sample_state) =
             actions_loop (step 0 ?A sample_failing_call ''t'') ?A sample_failing_call
               (None, [Action ''B1'']) [Action ''B1''] ((), ?w)"
    by (simp add: sample_agent_def sample_state_def always_click_def)
  have "actions_loop (step 0 ?A sample_failing_call ''t'') ?A sample_failing_call
          (None, [Action ''B1'']) [Action ''B1''] ((), ?w) =
        Some (Inr None,
              ((), ?w\<lparr>env := 1,
                       trajectory :=
                         add_step \<lparr>input = FallbackObserveAction,
                                   output' = Some sample_observation, success = True,
                                   message = ''Observed'', should_rerun_step_agent = False\<rparr>
                           (add_output (None, [Action ''B1''])
                              (add_step ?st (trajectory ?w)))\<rparr>))"
    by (rule fallback_observation [where exec = sample_failing_call and ?x1.0 = "()"
          and ?w1.0 = ?w and result = ?st and obs = sample_observation and ?e3.0 = 1])
       (simp_all add: sample_failing_call_def sample_agent_def)
  then show ?thesis
    unfolding s by (simp add: add_output_def add_step_def sample_state_def)
qed

section \<open>Properties of the run\<close>

lemma run_loop_without_end:
  "steps_without_end k fuel A exec task s = Some s' \<Longrightarrow>
   run_loop k fuel A exec task s = Some (Inr None, s')"
proof (induction k arbitrary: s)
  case 0
  then show ?case by simp
next
  case (Suc k)
  from Suc.prems show ?case
    by (auto simp: Let_def Suc.IH split: option.splits prod.splits sum.splits list.splits if_splits)
qed

text \<open>A response returned inside the loop is the response of \<^verbatim>\<open>_run\<close>.\<close>

lemma inner_run_loop_response:
  assumes "aenter A (env w) = (Inr u, e1)"
    and "run_loop (nat (env_max_steps (config A))) fuel A exec (start_task task url)
           (x, w\<lparr>env := e1\<rparr>) = Some (Inr (Some resp), (x2, w2))"
    and "aexit A (env w2) = (Inr u', e3)"
  shows "inner_run fuel A exec task url (x, w) = Some (Inr resp, (x2, w2\<lparr>env := e3\<rparr>))"
  using assms by (simp add: inner_run_def Let_def)





text \<open>
  C8, as amended. When entering and leaving the environment raise nothing and none of
  the \<^verbatim>\<open>max_steps\<close> iterations of the loop ends the run (its step raises nothing and
  returns no completion decision, or one that the validator rejects), \<^verbatim>\<open>run\<close>
  returns, after exactly these iterations, a failed response whose answer names the step
  budget.
\<close>

theorem step_budget_exhausted:
  assumes "aenter A (env w) = (Inr u, e1)"
    and "steps_without_end (nat (env_max_steps (config A))) fuel A exec (start_task task url)
           (x, w\<lparr>env := e1\<rparr>) = Some (x2, w2)"
    and "aexit A (env w2) = (Inr u', e3)"
  shows "run fuel A exec task url (x, w) =
           Some (Inr (output_response A (w2\<lparr>env := e3\<rparr>)
                        (''Failed to solve task in '' @ str_int (env_max_steps (config A)) @
                         '' steps'') False),
                 (x2, w2\<lparr>env := e3\<rparr>))"
  using assms(1,3) run_loop_without_end [OF assms(2)] by (simp add: run_def inner_run_def Let_def)

lemma sample_quiet_step:
  "step (Suc 0) (sample_agent always_click accepts True rc) executor_call ''t''
     (step_executor (sample_agent always_click accepts True rc),
      \<lparr>trajectory = tr, conv = c, env = n\<rparr>) =
   Some (Inr None,
         (step_executor (sample_agent always_click accepts True rc),
          \<lparr>trajectory = add_step
               \<lparr>input = Action ''B1'', output' = Some sample_observation, success = True,
                message = ''Successfully executed action with input: action'',
                should_rerun_step_agent = False\<rparr>
               (add_output (None, [Action ''B1'']) tr),
           conv = [''t''], env = Suc n\<rparr>))"
  by (simp add: executor_call_def step_executor_def executor_with_def unawaited_def execute_def
      try_block_def call_handler_def execute_action_def sample_agent_def always_click_def accepts_def Let_def)

theorem step_budget_exhausted_witness:
  "map_option (\<lambda>r. map_sum exn_str (\<lambda>resp. (answer resp, response_success resp,
                                              length (agent_trajectory resp))) (fst r))
     (run 1 (sample_agent always_click accepts True RETRY) executor_call ''t'' None
        (step_executor (sample_agent always_click accepts True RETRY), sample_state)) =
   Some (Inr (''Failed to solve task in 5 steps'', False, 5))"
proof -
  let ?A = "sample_agent always_click accepts True RETRY"
  let ?n = "nat (env_max_steps (config ?A))"
  let ?s = "(step_executor ?A, sample_state\<lparr>env := 0\<rparr>)"
  have n: "?n = Suc (Suc (Suc (Suc (Suc 0))))" by (simp add: sample_agent_def eval_nat_numeral)
  have t: "start_task ''t'' None = ''t''" by (simp add: start_task_def)
  have a: "aenter ?A (env sample_state) = (Inr (), 0)"
    by (simp add: sample_agent_def sample_state_def)
  obtain x2 w2 where
    f: "steps_without_end ?n (Suc 0) ?A executor_call (start_task ''t'' None) ?s = Some (x2, w2)"
    and l: "length (trajectory w2) = 5"
    unfolding n t sample_state_def
    by (simp add: sample_quiet_step add_step_def add_output_def del: step.simps)
  have e: "aexit ?A (env w2) = (Inr (), env w2)" by (simp add: sample_agent_def)
  have b: "str_int (env_max_steps (config ?A)) = ''5''"
    by (simp add: sample_agent_def str_int_def str_nat.simps [of 5])
  from step_budget_exhausted [OF a f e] l b
  show ?thesis by (simp add: output_response_def)
qed

text \<open>
  The claim as it stands fails when a step raises: with a browser that rejects every
  action, the third failure in a row raises the fatal error in the first step, and the
  run, under \<^verbatim>\<open>RaiseCondition.RETRY\<close>, raises it and returns no response. This
  holds for the executor as the agent wires it and for the one that runs the check.
\<close>

theorem run_ends_by_fatal_error:
  "map_option fst
     (run 5 (sample_agent always_click rejects True RETRY) executor_call ''t'' None
        (step_executor (sample_agent always_click rejects True RETRY), sample_state)) =
   Some (Inl (MaxConsecutiveFailuresError 3))
   \<and> map_option fst
       (run 5 (sample_agent always_click rejects True RETRY) executor_call ''t'' None
          (executor_with (precheck_action (sample_agent always_click rejects True RETRY))
             (sample_agent always_click rejects True RETRY), sample_state)) =
     Some (Inl (MaxConsecutiveFailuresError 3))"
  by (simp add: run_def inner_run_def start_task_def eval_nat_numeral executor_call_def
      step_executor_def executor_with_def unawaited_def execute_def try_block_def on_failure_def
      call_handler_def execute_action_def precheck_action_def is_first_step_def last_obs_def
      get_valid_action_set_def InvalidActionIDError_def invalid_action_id_handler_def
      sample_agent_def sample_state_def always_click_def rejects_def
      add_output_def add_step_def sample_error_def Let_def)

text \<open>
  C9, as amended. Under \<^verbatim>\<open>RaiseCondition.NEVER\<close>, \<^verbatim>\<open>run\<close> raises no exception that
  is an instance of \<^verbatim>\<open>Exception\<close>: such an exception of \<^verbatim>\<open>_run\<close> becomes a response
  with \<^verbatim>\<open>success=False\<close> whose answer names the exception.
\<close>

theorem run_never_raises:
  assumes "raise_condition (config A) = NEVER"
  shows "(\<forall>e s1. run fuel A exec task url s = Some (Inl e, s1) \<longrightarrow> \<not> is_Exception (etype e))
       \<and> (\<forall>e x1 w1. inner_run fuel A exec task url s = Some (Inl e, (x1, w1))
                      \<and> is_Exception (etype e) \<longrightarrow>
            run fuel A exec task url s =
              Some (Inr (output_response A w1
                           (''Failed due to '' @ exn_str e @ '': '' @ format_exc A e) False),
                    (x1, w1)))"
  using assms by (auto simp: run_def split: option.splits prod.splits sum.splits if_splits)

theorem run_never_raises_witness:
  "map_option (\<lambda>r. map_sum exn_str (\<lambda>resp. (answer resp, response_success resp)) (fst r))
     (run 5 (sample_agent always_click rejects True NEVER) executor_call ''t'' None
        (step_executor (sample_agent always_click rejects True NEVER), sample_state)) =
   Some (Inr (''Failed due to Max consecutive failures reached in a single step: 3.: Traceback'',
              False))"
proof -
  let ?A = "sample_agent always_click rejects True NEVER"
  let ?s = "(step_executor ?A, sample_state)"
  have c: "raise_condition (config ?A) = NEVER" by (simp add: sample_agent_def)
  obtain x1 w1 where i: "inner_run 5 ?A executor_call ''t'' None ?s =
      Some (Inl (MaxConsecutiveFailuresError 3), (x1, w1))"
    by (simp add: inner_run_def start_task_def eval_nat_numeral executor_call_def
      step_executor_def executor_with_def unawaited_def execute_def try_block_def on_failure_def
      call_handler_def execute_action_def sample_agent_def sample_state_def always_click_def
      rejects_def add_output_def add_step_def sample_error_def Let_def)
  have m: "exn_str (MaxConsecutiveFailuresError 3) =
             ''Max consecutive failures reached in a single step: 3.''"
    and t: "is_Exception (etype (MaxConsecutiveFailuresError 3))"
    by (simp_all add: MaxConsecutiveFailuresError_def str_int_def str_nat.simps [of 3] Let_def)
  have f: "format_exc ?A = (\<lambda>e. ''Traceback'')" by (simp add: sample_agent_def)
  from run_never_raises [OF c, of 5 executor_call "''t''" None ?s] i m t f
  show ?thesis by (simp add: output_response_def)
qed

text \<open>
  The claim as it stands fails for an exception that is not an instance of
  \<^verbatim>\<open>Exception\<close>: when the call of the reasoning engine is cancelled, \<^verbatim>\<open>run\<close> raises
  \<^verbatim>\<open>CancelledError\<close> under \<^verbatim>\<open>RaiseCondition.NEVER\<close> too.
\<close>

theorem run_propagates_cancellation:
  "raise_condition (config sample_cancelled_agent) = NEVER
   \<and> map_option fst
       (run 5 sample_cancelled_agent executor_call ''t'' None
          (step_executor sample_cancelled_agent, sample_state)) =
     Some (Inl CancelledError)"
  by (simp add: run_def inner_run_def start_task_def eval_nat_numeral sample_cancelled_agent_def
      sample_agent_def sample_state_def CancelledError_def)

end
